theory Spec2Isabelle
  imports Complex_Main "HOL-Library.AList"
begin

section \<open>The NAFIN guarantee quoter (quoter.py, features.py, app.py)\<close>

text \<open>
  Python floats and ints are modelled as mathematical numbers: amounts, rates and model
  outputs as \<open>real\<close>, the term and the employee count as \<open>int\<close>. Every value
  that is returned is exact: the rounding of values and the IEEE special values are
  outside the model. Two floating-point effects that make the amortisation raise are
  part of the model, see \<open>float_one_plus\<close> and \<open>float_overflows\<close> below. Every
  exception the modelled code can raise is a value \<open>Inl e\<close> of a sum type.
\<close>

subsection \<open>Values, frames and errors\<close>

text \<open>
  The first five constructors are the Python exceptions that the modelled code raises,
  and \<open>TrainError\<close> stands for whatever the training script raises. The last three
  are the error kinds named by the specification; no function below constructs them,
  since the source defines no exception class of its own.
\<close>

datatype py_error =
    ZeroDivisionError
  | OverflowError
  | ValueError
  | KeyError
  | FileNotFoundError
  | TrainError
  | InvalidInputError
  | SchemaError
  | ModelOutputError

text \<open>
  A cell of a data frame or a value of a dictionary: a number, a string, or a
  missing value (\<open>NaN\<close>).
\<close>

datatype val = Num real | Str string | Missing

text \<open>
  \<open>pd.DataFrame([features])\<close> is a frame of one row; it is modelled as the list of
  its columns in order, each with the cell of that row. A Python dictionary literal is
  modelled the same way.
\<close>

type_synonym frame = "(string \<times> val) list"

subsection \<open>quoter.py: guarantee amount and amortisation\<close>

definition calculate_nafin_guarantee :: "real \<Rightarrow> real" where
  "calculate_nafin_guarantee approved_amount =
     (if approved_amount \<le> 2000000 then approved_amount * 0.80
      else approved_amount * 0.70)"

text \<open>
  Where floating point makes the amortisation raise although real arithmetic would
  not. The sum \<open>1 + monthly_rate\<close> is the double \<open>1.0\<close> when the rate is at most
  half the spacing of the doubles next to 1 (round to nearest, ties to even); the power
  is then \<open>1.0\<close> and the divisor \<open>0.0\<close>. A power whose magnitude rounds beyond
  the largest double raises \<open>OverflowError\<close>.
\<close>

definition float_one_plus :: "real \<Rightarrow> real" where
  "float_one_plus m = (if - (1 / 2 ^ 54) \<le> m \<and> m \<le> 1 / 2 ^ 53 then 1 else 1 + m)"

definition float_overflows :: "real \<Rightarrow> bool" where
  "float_overflows y \<longleftrightarrow> 2 ^ 1024 - 2 ^ 970 \<le> \<bar>y\<bar>"

text \<open>
  \<open>x ** n\<close> for a float \<open>x\<close> and an int \<open>n\<close>: a negative power of zero raises
  \<open>ZeroDivisionError\<close>, a result too large for a double raises \<open>OverflowError\<close>.
\<close>

definition py_pow :: "real \<Rightarrow> int \<Rightarrow> py_error + real" where
  "py_pow x n =
     (if 0 \<le> n then
        (if float_overflows (x ^ nat n) then Inl OverflowError else Inr (x ^ nat n))
      else if x = 0 then Inl ZeroDivisionError
      else if float_overflows (1 / x ^ nat (- n)) then Inl OverflowError
      else Inr (1 / x ^ nat (- n)))"

text \<open>Float division: a zero divisor raises \<open>ZeroDivisionError\<close>.\<close>

definition py_div :: "real \<Rightarrow> real \<Rightarrow> py_error + real" where
  "py_div a b = (if b = 0 then Inl ZeroDivisionError else Inr (a / b))"

definition calculate_monthly_payment :: "real \<Rightarrow> real \<Rightarrow> int \<Rightarrow> py_error + real" where
  "calculate_monthly_payment princ annual_rate term_months =
     (if annual_rate = 0 then py_div princ (of_int term_months)
      else
        let monthly_rate = (annual_rate / 100) / 12 in
        case py_pow (float_one_plus monthly_rate) term_months of
          Inl e \<Rightarrow> Inl e
        | Inr pw \<Rightarrow> py_div (princ * (monthly_rate * pw)) (pw - 1))"

subsection \<open>quoter.py: the feature record built at inference time\<close>

text \<open>\<open>str.upper\<close> on the ASCII letters (a \<open>char\<close> of HOL is a byte).\<close>

definition upper_char :: "char \<Rightarrow> char" where
  "upper_char c =
     (let n = (of_char c :: nat) in if 97 \<le> n \<and> n \<le> 122 then char_of (n - 32) else c)"

definition upper :: "string \<Rightarrow> string" where
  "upper s = map upper_char s"

text \<open>
  \<open>np.log1p\<close>; for an argument of at most \<open>-1\<close> numpy yields a non-finite float
  (\<open>-inf\<close> or \<open>nan\<close>), which the model renders as \<open>Missing\<close>.
\<close>

definition log1p :: "real \<Rightarrow> val" where
  "log1p x = (if -1 < x then Num (ln (1 + x)) else Missing)"

definition create_loan_features ::
  "real \<Rightarrow> int \<Rightarrow> int \<Rightarrow> bool \<Rightarrow> string \<Rightarrow> string \<Rightarrow> py_error + frame" where
  "create_loan_features approved_amount term_months num_employees
      is_new_business scian_code state_code =
     (let nafin_guaranteed = calculate_nafin_guarantee approved_amount in
      if num_employees + 1 = 0 then Inl ZeroDivisionError
      else Inr
        [(''GrAppv'', Num approved_amount),
         (''NAFIN_Appv'', Num nafin_guaranteed),
         (''Term'', Num (of_int term_months)),
         (''NoEmp'', Num (of_int num_employees)),
         (''IsNewBusiness'', Num (if is_new_business then 1 else 0)),
         (''NewExist'', Num (if is_new_business then 1.0 else 2.0)),
         (''SCIAN'', Str (take 2 scian_code)),
         (''State'', Str (upper state_code)),
         (''NAFIN_Portion'',
            Num (if approved_amount > 0 then nafin_guaranteed / approved_amount else 0)),
         (''Loan_per_Employee'', Num (approved_amount / of_int (num_employees + 1))),
         (''Term_Years'', Num (of_int term_months / 12.0)),
         (''Debt_to_NAFIN'', Num (approved_amount - nafin_guaranteed)),
         (''Log_GrAppv'', log1p approved_amount),
         (''HasRealEstate'', Num 0),
         (''InRecession'', Num 0),
         (''IsUrban'', Num 1)])"

subsection \<open>features.py: the preprocessor\<close>

text \<open>
  \<open>OrdinalEncoder\<close> of scikit-learn: the two reserved codes given to the
  constructor and, once fitted, the list of categories of every column
  (\<open>categories_\<close>). A missing value seen while fitting is itself a member of the
  column's category list.
\<close>

record ordinal_encoder =
  unknown_value :: real
  encoded_missing_value :: real
  categories :: "val list list"

text \<open>
  \<open>ColumnTransformer\<close> with its two transformers. The fitted numeric transformer (the
  Yeo-Johnson \<open>PowerTransformer\<close> with its fitted parameters) is an opaque function of
  the numeric cells of a row, \<open>None\<close> when it rejects them (scikit-learn raises
  \<open>ValueError\<close> on input it cannot convert). \<open>feature_names_out\<close> is what \<open>get_feature_names_out()\<close>
  returns, \<open>None\<close> when that call raises.
\<close>

record preprocessor =
  num_feats :: "string list"
  cat_feats :: "string list"
  num_tf :: "val list \<Rightarrow> real list option"
  cat_tf :: ordinal_encoder
  feature_names_out :: "string list option"

text \<open>
  \<open>create_preprocessor\<close> fixes the column lists and the encoder's reserved codes.
  Fitting happens in the training script, which is not among the sources; the fitted
  state (the numeric transform, the categories, the output names) is a parameter.
  In the source the adjacent literals \<open>''\<close> and \<open>'Loan_per_Emp'\<close> concatenate to
  \<open>'Loan_per_Emp'\<close>.
\<close>

definition create_preprocessor ::
  "(val list \<Rightarrow> real list option) \<Rightarrow> val list list \<Rightarrow> string list option \<Rightarrow> preprocessor" where
  "create_preprocessor fitted_num fitted_cats names =
     \<lparr>num_feats =
        [''GrAppv'', ''NAFIN_Appv'', ''Debt_to_NAFIN'', ''Log_GrAppv'', ''Term'',
         ''Term_Years'', ''NoEmp'', ''NAFIN_Portion'', ''Loan_per_Emp'',
         ''Log_Loan_per_Emp'', ''HasRealEstate'', ''RealEstate_Exposure'',
         ''InRecession'', ''Bank_Exposure'', ''Bank_Exposure_Ratio'', ''Loan_Age'',
         ''Bank_Frequency'', ''Bank_Frequency_Log''],
      cat_feats = [''SCIAN'', ''State'', ''Region'', ''IsNewBusiness'', ''IsUrban''],
      num_tf = fitted_num,
      cat_tf = \<lparr>unknown_value = -1, encoded_missing_value = -2,
                 categories = fitted_cats\<rparr>,
      feature_names_out = names\<rparr>"

text \<open>The position of a value in a list, if it occurs.\<close>

fun index_of :: "'a \<Rightarrow> 'a list \<Rightarrow> nat option" where
  "index_of x [] = None"
| "index_of x (y # ys) =
     (if x = y then Some 0 else map_option Suc (index_of x ys))"

text \<open>
  \<open>OrdinalEncoder.transform\<close> on one cell, with \<open>handle_unknown="use_encoded_value"\<close>:
  a fitted category gets its position in the category list; a missing value that is
  among the fitted categories gets \<open>encoded_missing_value\<close>; everything else,
  including a missing value the fit never saw, is an unknown category and gets
  \<open>unknown_value\<close>.
\<close>

definition encode :: "ordinal_encoder \<Rightarrow> val list \<Rightarrow> val \<Rightarrow> real" where
  "encode enc cats v =
     (case index_of v cats of
        None \<Rightarrow> unknown_value enc
      | Some i \<Rightarrow> if v = Missing then encoded_missing_value enc else real i)"

text \<open>
  \<open>ColumnTransformer.transform\<close> on a one-row frame: the columns are selected by
  name; a name seen while fitting and absent from the frame raises \<open>ValueError\<close>
  ("columns are missing"), and so does an encoder fitted on another number of columns.
\<close>

definition select_columns :: "frame \<Rightarrow> string list \<Rightarrow> val list option" where
  "select_columns X cols = those (map (map_of X) cols)"

definition transform :: "preprocessor \<Rightarrow> frame \<Rightarrow> py_error + real list" where
  "transform p X =
     (case select_columns X (num_feats p @ cat_feats p) of
        None \<Rightarrow> Inl ValueError
      | Some cells \<Rightarrow>
          let nums = take (length (num_feats p)) cells;
              cats = drop (length (num_feats p)) cells
          in if length (categories (cat_tf p)) \<noteq> length cats then Inl ValueError
             else case num_tf p nums of
                    None \<Rightarrow> Inl ValueError
                  | Some ns \<Rightarrow>
                      Inr (ns @ map (\<lambda>(cs, v). encode (cat_tf p) cs v)
                                    (zip (categories (cat_tf p)) cats)))"

text \<open>The decimal digits of a natural number, for the fallback names \<open>f0, f1, ...\<close>.\<close>

fun show_nat :: "nat \<Rightarrow> string" where
  "show_nat n =
     (if n < 10 then [char_of (48 + n)]
      else show_nat (n div 10) @ [char_of (48 + n mod 10)])"

text \<open>
  \<open>transform_data\<close>: the transformed row, labelled with the output names. The
  transformers used here give a dense matrix, so the \<open>toarray\<close> branch is not taken.
  \<open>pd.DataFrame\<close> raises \<open>ValueError\<close> when the number of names is not the number
  of columns.
\<close>

definition transform_data :: "preprocessor \<Rightarrow> frame \<Rightarrow> py_error + (string \<times> real) list" where
  "transform_data p X =
     (case transform p X of
        Inl e \<Rightarrow> Inl e
      | Inr X_mat \<Rightarrow>
          let cols = (case feature_names_out p of
                        Some ns \<Rightarrow> ns
                      | None \<Rightarrow> map (\<lambda>i. ''f'' @ show_nat i) [0..<length X_mat])
          in if length cols \<noteq> length X_mat then Inl ValueError
             else Inr (zip cols X_mat))"

subsection \<open>quoter.py: loading the models and computing the quote\<close>

text \<open>
  The pickled dictionary of artifacts. The two models are opaque scoring functions of
  the preprocessed row: \<open>pd_model\<close> stands for \<open>predict_proba(X)[:, 1][0]\<close> and
  \<open>lgd_model\<close> for \<open>predict(X)[0]\<close>.
\<close>

record artifacts =
  preprocessor :: preprocessor
  pd_model :: "(string \<times> real) list \<Rightarrow> real"
  lgd_model :: "(string \<times> real) list \<Rightarrow> real"
  calibration_factor :: real

text \<open>The model files of the working directory: the name of each existing file with its content.\<close>

type_synonym files = "string \<Rightarrow> artifacts option"

text \<open>
  \<open>load_models\<close> reads the first model file that exists; with none it runs the
  training script and reads the file that script is to write. The training script is not
  among the sources: \<open>train\<close> is a parameter giving the files it leaves behind and
  whether it raised.
\<close>

definition load_models ::
  "(files \<Rightarrow> files \<times> bool) \<Rightarrow> files \<Rightarrow> files \<times> (py_error + artifacts)" where
  "load_models train fs =
     (case fs ''sba_mexico_model.pkl'' of
        Some a \<Rightarrow> (fs, Inr a)
      | None \<Rightarrow>
         (case fs ''sba_model.pkl'' of
            Some a \<Rightarrow> (fs, Inr a)
          | None \<Rightarrow>
             (case train fs of
                (fs', raised) \<Rightarrow>
                  if raised then (fs', Inl TrainError)
                  else (case fs' ''sba_mexico_model.pkl'' of
                          Some a \<Rightarrow> (fs', Inr a)
                        | None \<Rightarrow> (fs', Inl FileNotFoundError)))))"

text \<open>
  The frame \<open>loan_df\<close> of \<open>calculate_quote\<close>: the feature record, with the two
  flag columns assigned afterwards. Assigning an existing column keeps its position.
\<close>

definition quote_loan_df ::
  "real \<Rightarrow> int \<Rightarrow> int \<Rightarrow> bool \<Rightarrow> string \<Rightarrow> string \<Rightarrow> bool \<Rightarrow> bool \<Rightarrow> py_error + frame" where
  "quote_loan_df approved_amount term_months num_employees is_new_business
      scian_code state_code has_real_estate in_recession =
     (case create_loan_features approved_amount term_months num_employees
             is_new_business scian_code state_code of
        Inl e \<Rightarrow> Inl e
      | Inr loan_df \<Rightarrow>
          Inr (AList.update ''InRecession'' (Num (if in_recession then 1 else 0))
                 (AList.update ''HasRealEstate'' (Num (if has_real_estate then 1 else 0))
                    loan_df)))"

text \<open>
  The body of \<open>calculate_quote\<close> after the models are loaded. The result is the
  dictionary the function returns, with its twelve keys in order.
\<close>

definition quote_with ::
  "artifacts \<Rightarrow> real \<Rightarrow> int \<Rightarrow> int \<Rightarrow> bool \<Rightarrow> string \<Rightarrow> string \<Rightarrow> real \<Rightarrow> bool \<Rightarrow> bool
     \<Rightarrow> py_error + frame" where
  "quote_with arts approved_amount term_months num_employees is_new_business
      scian_code state_code bank_rate has_real_estate in_recession =
     (case quote_loan_df approved_amount term_months num_employees
             is_new_business scian_code state_code has_real_estate in_recession of
        Inl e \<Rightarrow> Inl e
      | Inr loan_df \<Rightarrow>
          (case transform_data (preprocessor arts) loan_df of
               Inl e \<Rightarrow> Inl e
             | Inr X_processed \<Rightarrow>
                 let pd_pred = pd_model arts X_processed;
                     lgd_pred = lgd_model arts X_processed;
                     el_pred = pd_pred * lgd_pred * calibration_factor arts;
                     nafin_guaranteed = calculate_nafin_guarantee approved_amount;
                     guarantee_fee0 = el_pred * 1.20;
                     guarantee_fee1 = max guarantee_fee0 (nafin_guaranteed * 0.005);
                     guarantee_fee = min guarantee_fee1 (nafin_guaranteed * 0.05);
                     total_financed = approved_amount + guarantee_fee
                 in case calculate_monthly_payment total_financed bank_rate term_months of
                      Inl e \<Rightarrow> Inl e
                    | Inr monthly_payment \<Rightarrow> Inr
                        [(''approved_amount'', Num approved_amount),
                         (''nafin_guaranteed'', Num nafin_guaranteed),
                         (''pd'', Num pd_pred),
                         (''lgd'', Num lgd_pred),
                         (''expected_loss'', Num el_pred),
                         (''guarantee_fee'', Num guarantee_fee),
                         (''total_financed'', Num total_financed),
                         (''monthly_payment'', Num monthly_payment),
                         (''term_months'', Num (of_int term_months)),
                         (''bank_rate'', Num bank_rate),
                         (''scian_code'', Str scian_code),
                         (''state'', Str state_code)]))"

definition calculate_quote ::
  "(files \<Rightarrow> files \<times> bool) \<Rightarrow> files
     \<Rightarrow> real \<Rightarrow> int \<Rightarrow> int \<Rightarrow> bool \<Rightarrow> string \<Rightarrow> string \<Rightarrow> real \<Rightarrow> bool \<Rightarrow> bool
     \<Rightarrow> files \<times> (py_error + frame)" where
  "calculate_quote train fs approved_amount term_months num_employees is_new_business
      scian_code state_code bank_rate has_real_estate in_recession =
     (case load_models train fs of
        (fs', Inl e) \<Rightarrow> (fs', Inl e)
      | (fs', Inr arts) \<Rightarrow>
          (fs', quote_with arts approved_amount term_months num_employees
                  is_new_business scian_code state_code bank_rate
                  has_real_estate in_recession))"

text \<open>Reading a key of a dictionary, as \<open>quote['gps_category']\<close> in app.py does.\<close>

definition getitem :: "frame \<Rightarrow> string \<Rightarrow> py_error + val" where
  "getitem d k = (case map_of d k of None \<Rightarrow> Inl KeyError | Some v \<Rightarrow> Inr v)"

subsection \<open>The clamp of the specification\<close>

text \<open>
  The specification writes the final fee as \<open>clamp(raw_fee, floor, cap)\<close>. This is
  that clamp, written from the specification's words, to be compared with the
  \<open>max\<close>/\<open>min\<close> pair of the source.
\<close>

definition spec_clamp :: "real \<Rightarrow> real \<Rightarrow> real \<Rightarrow> real" where
  "spec_clamp x lo hi = (if x < lo then lo else if hi < x then hi else x)"

subsection \<open>A small fitted bundle for concrete evaluations\<close>

text \<open>
  A preprocessor fitted on two numeric columns and one categorical column, all of
  which the inference-time feature record carries; its numeric transform is the
  identity on numbers. The scorers of the bundle return fixed values.
\<close>

definition cell_num :: "val \<Rightarrow> real" where
  "cell_num c = (case c of Num x \<Rightarrow> x | _ \<Rightarrow> 0)"

definition example_preprocessor :: preprocessor where
  "example_preprocessor =
     \<lparr>num_feats = [''GrAppv'', ''Term''],
      cat_feats = [''State''],
      num_tf = (\<lambda>cells. Some (map cell_num cells)),
      cat_tf = \<lparr>unknown_value = -1, encoded_missing_value = -2,
                 categories = [[Str ''CDMX'', Str ''JAL'']]\<rparr>,
      feature_names_out = Some [''num__GrAppv'', ''num__Term'', ''cat__State'']\<rparr>"

definition example_artifacts :: "real \<Rightarrow> real \<Rightarrow> artifacts" where
  "example_artifacts p l =
     \<lparr>preprocessor = example_preprocessor,
      pd_model = (\<lambda>X. p),
      lgd_model = (\<lambda>X. l),
      calibration_factor = 1\<rparr>"

definition example_files :: "real \<Rightarrow> real \<Rightarrow> files" where
  "example_files p l =
     (\<lambda>name. if name = ''sba_mexico_model.pkl'' then Some (example_artifacts p l) else None)"

text \<open>
  A preprocessor as \<open>create_preprocessor\<close> builds it, fitted on data without missing
  values: two categories seen for every categorical column.
\<close>

definition example_fitted_preprocessor :: preprocessor where
  "example_fitted_preprocessor =
     create_preprocessor (\<lambda>cells. Some (map cell_num cells))
       [[Str ''11'', Str ''46''], [Str ''CDMX'', Str ''JAL''],
        [Str ''Center'', Str ''Other''], [Num 0, Num 1], [Num 0, Num 1]]
       None"

text \<open>A training script that raises at once and leaves the files as they are.\<close>

definition failing_train :: "files \<Rightarrow> files \<times> bool" where
  "failing_train fs = (fs, True)"

section \<open>Auxiliary lemmas\<close>

lemma those_map_None:
  "those (map f xs) = None \<longleftrightarrow> (\<exists>x\<in>set xs. f x = None)"
  by (induction xs) (auto split: option.splits)

lemma select_columns_missing:
  assumes "c \<in> set cols" and "c \<notin> fst ` set X"
  shows "select_columns X cols = None"
proof -
  from assms(2) have "map_of X c = None"
    by (simp add: map_of_eq_None_iff)
  with assms(1) show ?thesis
    unfolding select_columns_def those_map_None by blast
qed



lemma calculate_quote_loaded:
  assumes "load_models train fs = (fs', Inr arts)"
  shows "calculate_quote train fs a t n b s st r h i = (fs', quote_with arts a t n b s st r h i)"
  using assms by (simp add: calculate_quote_def)

lemma quote_with_Inr:
  assumes "quote_with arts a t n b s st r h i = Inr q"
  shows "\<exists>df X pay.
           quote_loan_df a t n b s st h i = Inr df \<and>
           transform_data (preprocessor arts) df = Inr X \<and>
           calculate_monthly_payment
             (a + min (max (pd_model arts X * lgd_model arts X * calibration_factor arts * 1.20)
                           (calculate_nafin_guarantee a * 0.005))
                      (calculate_nafin_guarantee a * 0.05)) r t = Inr pay \<and>
           q = [(''approved_amount'', Num a),
                (''nafin_guaranteed'', Num (calculate_nafin_guarantee a)),
                (''pd'', Num (pd_model arts X)),
                (''lgd'', Num (lgd_model arts X)),
                (''expected_loss'', Num (pd_model arts X * lgd_model arts X * calibration_factor arts)),
                (''guarantee_fee'',
                   Num (min (max (pd_model arts X * lgd_model arts X * calibration_factor arts * 1.20)
                                 (calculate_nafin_guarantee a * 0.005))
                            (calculate_nafin_guarantee a * 0.05))),
                (''total_financed'',
                   Num (a + min (max (pd_model arts X * lgd_model arts X * calibration_factor arts * 1.20)
                                     (calculate_nafin_guarantee a * 0.005))
                                (calculate_nafin_guarantee a * 0.05))),
                (''monthly_payment'', Num pay),
                (''term_months'', Num (of_int t)),
                (''bank_rate'', Num r),
                (''scian_code'', Str s),
                (''state'', Str st)]"
  using assms
  unfolding quote_with_def Let_def
  by (auto split: sum.splits)

lemma quote_with_ok:
  assumes "quote_loan_df a t n b s st h i = Inr df"
    and "transform_data (preprocessor arts) df = Inr X"
    and "calculate_monthly_payment
             (a + min (max (pd_model arts X * lgd_model arts X * calibration_factor arts * 1.20)
                           (calculate_nafin_guarantee a * 0.005))
                      (calculate_nafin_guarantee a * 0.05)) r t = Inr pay"
  shows "quote_with arts a t n b s st r h i =
           Inr [(''approved_amount'', Num a),
                (''nafin_guaranteed'', Num (calculate_nafin_guarantee a)),
                (''pd'', Num (pd_model arts X)),
                (''lgd'', Num (lgd_model arts X)),
                (''expected_loss'', Num (pd_model arts X * lgd_model arts X * calibration_factor arts)),
                (''guarantee_fee'',
                   Num (min (max (pd_model arts X * lgd_model arts X * calibration_factor arts * 1.20)
                                 (calculate_nafin_guarantee a * 0.005))
                            (calculate_nafin_guarantee a * 0.05))),
                (''total_financed'',
                   Num (a + min (max (pd_model arts X * lgd_model arts X * calibration_factor arts * 1.20)
                                     (calculate_nafin_guarantee a * 0.005))
                                (calculate_nafin_guarantee a * 0.05))),
                (''monthly_payment'', Num pay),
                (''term_months'', Num (of_int t)),
                (''bank_rate'', Num r),
                (''scian_code'', Str s),
                (''state'', Str st)]"
  using assms
  unfolding quote_with_def Let_def
  by simp

lemma monthly_payment_rate_zero:
  assumes "t \<noteq> 0"
  shows "calculate_monthly_payment p 0 t = Inr (p / of_int t)"
  using assms by (simp add: calculate_monthly_payment_def py_div_def)

lemma create_loan_features_errors:
  assumes "create_loan_features a t n b s st = Inl e"
  shows "e = ZeroDivisionError"
  using assms by (simp add: create_loan_features_def Let_def split: if_splits)

lemma quote_loan_df_errors:
  assumes "quote_loan_df a t n b s st h i = Inl e"
  shows "e = ZeroDivisionError"
  using assms create_loan_features_errors
  by (auto simp: quote_loan_df_def split: sum.splits)

lemma transform_errors:
  assumes "transform p X = Inl e"
  shows "e = ValueError"
  using assms
  by (auto simp: transform_def Let_def split: option.splits if_splits)

lemma transform_data_errors:
  assumes "transform_data p X = Inl e"
  shows "e = ValueError"
  using assms transform_errors
  by (auto simp: transform_data_def Let_def split: sum.splits if_splits)

lemma py_div_errors:
  assumes "py_div x y = Inl e"
  shows "e = ZeroDivisionError"
  using assms by (simp add: py_div_def split: if_splits)

lemma py_pow_errors:
  assumes "py_pow x n = Inl e"
  shows "e = ZeroDivisionError \<or> e = OverflowError"
  using assms by (simp add: py_pow_def split: if_splits)

lemma calculate_monthly_payment_errors:
  assumes "calculate_monthly_payment p r t = Inl e"
  shows "e = ZeroDivisionError \<or> e = OverflowError"
  using assms py_div_errors py_pow_errors
  by (auto simp: calculate_monthly_payment_def Let_def split: if_splits sum.splits)

lemma quote_with_errors:
  assumes "quote_with arts a t n b s st r h i = Inl e"
  shows "e = ZeroDivisionError \<or> e = OverflowError \<or> e = ValueError"
  using assms quote_loan_df_errors transform_data_errors calculate_monthly_payment_errors
  unfolding quote_with_def Let_def
  by (fastforce split: sum.splits)

lemma load_models_errors:
  assumes "load_models train fs = (fs', Inl e)"
  shows "e = TrainError \<or> e = FileNotFoundError"
  using assms
  by (auto simp: load_models_def split: option.splits prod.splits if_splits)

lemma calculate_quote_errors:
  assumes "snd (calculate_quote train fs a t n b s st r h i) = Inl e"
  shows "e \<in> {ZeroDivisionError, OverflowError, ValueError, FileNotFoundError, TrainError}"
proof (cases "load_models train fs")
  case (Pair fs' res)
  show ?thesis
  proof (cases res)
    case (Inl e')
    with Pair assms have "e = e'" by (simp add: calculate_quote_def)
    with Pair Inl load_models_errors show ?thesis by fastforce
  next
    case (Inr arts)
    with Pair assms have "quote_with arts a t n b s st r h i = Inl e"
      by (simp add: calculate_quote_def)
    with quote_with_errors show ?thesis by fastforce
  qed
qed

lemmas example_defs =
  example_files_def example_artifacts_def example_preprocessor_def cell_num_def
  failing_train_def

lemmas quote_defs =
  calculate_quote_def load_models_def quote_with_def quote_loan_df_def
  create_loan_features_def transform_data_def transform_def select_columns_def
  encode_def calculate_nafin_guarantee_def calculate_monthly_payment_def
  py_div_def py_pow_def float_one_plus_def float_overflows_def Let_def

lemma nafin_guarantee_pos:
  assumes "0 < a"
  shows "0 < calculate_nafin_guarantee a"
  using assms by (simp add: calculate_nafin_guarantee_def)

lemma min_max_is_clamp:
  assumes "lo \<le> hi"
  shows "min (max x lo) hi = spec_clamp x lo hi"
  using assms by (auto simp: spec_clamp_def min_def max_def)

lemma load_example_files:
  "load_models train (example_files p l) = (example_files p l, Inr (example_artifacts p l))"
  by (simp add: load_models_def example_files_def)

lemma index_of_None:
  "index_of x xs = None \<longleftrightarrow> x \<notin> set xs"
  by (induction xs) auto


lemma quote_loan_df_built:
  assumes "n \<noteq> - 1"
  shows "\<exists>df. quote_loan_df a t n b s st h i = Inr df"
  using assms by (simp add: quote_loan_df_def create_loan_features_def Let_def)




section \<open>Properties\<close>

text \<open>
  C6. For every approved amount: if the amount is at most 2,000,000 the guaranteed
  amount is the amount times 0.80, and if it is above 2,000,000 the guaranteed amount
  is the amount times 0.70.
\<close>

theorem nafin_guarantee_tiers:
  "(approved_amount \<le> 2000000 \<longrightarrow>
      calculate_nafin_guarantee approved_amount = approved_amount * 0.80) \<and>
   (approved_amount > 2000000 \<longrightarrow>
      calculate_nafin_guarantee approved_amount = approved_amount * 0.70)"
  by (simp add: calculate_nafin_guarantee_def)

theorem nafin_guarantee_tiers_witness:
  "calculate_nafin_guarantee 2000000 = 1600000 \<and>
   calculate_nafin_guarantee 3000000 = 2100000"
  using nafin_guarantee_tiers [of 2000000] nafin_guarantee_tiers [of 3000000]
  by simp

text \<open>
  C2. For every quote request with a positive approved amount for which a quote is
  returned, the guarantee fee of the quote is the clamp of the raw fee
  \<open>pd * lgd * calibration * 1.20\<close> between \<open>guaranteed * 0.005\<close> and
  \<open>guaranteed * 0.05\<close>, and so lies between these two bounds, whatever the expected
  loss is.
\<close>

theorem guarantee_fee_clamped:
  assumes "load_models train fs = (fs', Inr arts)"
    and "calculate_quote train fs approved_amount term_months num_employees
           is_new_business scian_code state_code bank_rate has_real_estate in_recession
         = (fs', Inr q)"
    and "0 < approved_amount"
  shows "\<exists>pd lgd fee.
           map_of q ''pd'' = Some (Num pd) \<and>
           map_of q ''lgd'' = Some (Num lgd) \<and>
           map_of q ''expected_loss'' = Some (Num (pd * lgd * calibration_factor arts)) \<and>
           map_of q ''guarantee_fee'' = Some (Num fee) \<and>
           fee = spec_clamp (pd * lgd * calibration_factor arts * 1.20)
                   (calculate_nafin_guarantee approved_amount * 0.005)
                   (calculate_nafin_guarantee approved_amount * 0.05) \<and>
           calculate_nafin_guarantee approved_amount * 0.005 \<le> fee \<and>
           fee \<le> calculate_nafin_guarantee approved_amount * 0.05"
proof -
  define g where "g = calculate_nafin_guarantee approved_amount"
  from assms(1,2) have qw: "quote_with arts approved_amount term_months num_employees
      is_new_business scian_code state_code bank_rate has_real_estate in_recession = Inr q"
    by (simp add: calculate_quote_def)
  from quote_with_Inr [OF qw] obtain X where
    q: "map_of q ''pd'' = Some (Num (pd_model arts X))"
       "map_of q ''lgd'' = Some (Num (lgd_model arts X))"
       "map_of q ''expected_loss'' =
          Some (Num (pd_model arts X * lgd_model arts X * calibration_factor arts))"
       "map_of q ''guarantee_fee'' =
          Some (Num (min (max (pd_model arts X * lgd_model arts X * calibration_factor arts * 1.20)
                              (g * 0.005)) (g * 0.05)))"
    unfolding g_def by auto
  from assms(3) have "0 < g"
    unfolding g_def by (rule nafin_guarantee_pos)
  then have le: "g * 0.005 \<le> g * 0.05" by simp
  let ?raw = "pd_model arts X * lgd_model arts X * calibration_factor arts * 1.20"
  have c: "min (max ?raw (g * 0.005)) (g * 0.05) = spec_clamp ?raw (g * 0.005) (g * 0.05)"
    using le by (rule min_max_is_clamp)
  have lo: "g * 0.005 \<le> min (max ?raw (g * 0.005)) (g * 0.05)"
    using le by simp
  have hi: "min (max ?raw (g * 0.005)) (g * 0.05) \<le> g * 0.05"
    by simp
  from q c lo hi show ?thesis
    unfolding g_def by blast
qed

theorem guarantee_fee_clamped_witness:
  "\<exists>q fee. snd (calculate_quote failing_train (example_files 1 500000)
                  500000 36 12 False ''46'' ''JAL'' 0 False False) = Inr q \<and>
       map_of q ''guarantee_fee'' = Some (Num fee) \<and>
       fee = spec_clamp 600000 2000 20000 \<and> 2000 \<le> fee \<and> fee \<le> 20000"
proof -
  define Q where "Q =
    [(''approved_amount'', Num 500000), (''nafin_guaranteed'', Num 400000),
     (''pd'', Num 1), (''lgd'', Num 500000),
     (''expected_loss'', Num 500000), (''guarantee_fee'', Num 20000),
     (''total_financed'', Num 520000), (''monthly_payment'', Num (130000 / 9)),
     (''term_months'', Num 36), (''bank_rate'', Num 0),
     (''scian_code'', Str ''46''), (''state'', Str ''JAL'')]"
  have l: "load_models failing_train (example_files 1 500000)
             = (example_files 1 500000, Inr (example_artifacts 1 500000))"
    by (rule load_example_files)
  have c: "calculate_quote failing_train (example_files 1 500000)
              500000 36 12 False ''46'' ''JAL'' 0 False False
           = (example_files 1 500000, Inr Q)"
    unfolding Q_def by (simp add: quote_defs example_defs)
  have p: "(0::real) < 500000" by simp
  from guarantee_fee_clamped [OF l c p] obtain pd lgd fee where
    f: "map_of Q ''pd'' = Some (Num pd)" "map_of Q ''lgd'' = Some (Num lgd)"
       "map_of Q ''guarantee_fee'' = Some (Num fee)"
       "fee = spec_clamp (pd * lgd * calibration_factor (example_artifacts 1 500000) * 1.20)
                (calculate_nafin_guarantee 500000 * 0.005)
                (calculate_nafin_guarantee 500000 * 0.05)"
       "calculate_nafin_guarantee 500000 * 0.005 \<le> fee"
       "fee \<le> calculate_nafin_guarantee 500000 * 0.05"
    by blast
  from f(1,2) have "pd = 1" "lgd = 500000"
    by (simp_all add: Q_def)
  with f(4,5,6) have "fee = spec_clamp 600000 2000 20000" "2000 \<le> fee" "fee \<le> 20000"
    by (simp_all add: example_artifacts_def calculate_nafin_guarantee_def)
  moreover from c have "snd (calculate_quote failing_train (example_files 1 500000)
                  500000 36 12 False ''46'' ''JAL'' 0 False False) = Inr Q"
    by (simp only: snd_conv)
  ultimately show ?thesis using f(3) by blast
qed



text \<open>
  C4. The feature record that \<open>create_loan_features\<close> builds (it is built whenever
  the employee count is not \<open>-1\<close>) has exactly the sixteen keys listed, and of the
  columns that the preprocessor of \<open>create_preprocessor\<close> requires, exactly nine are
  not among them: \<open>Loan_per_Emp\<close>, \<open>Log_Loan_per_Emp\<close>, \<open>RealEstate_Exposure\<close>,
  \<open>Bank_Exposure\<close>, \<open>Bank_Exposure_Ratio\<close>, \<open>Loan_Age\<close>, \<open>Bank_Frequency\<close>,
  \<open>Bank_Frequency_Log\<close> and \<open>Region\<close>.
\<close>

theorem loan_features_keys:
  "(num_employees \<noteq> - 1 \<longrightarrow>
      (\<exists>df. create_loan_features approved_amount term_months num_employees
               is_new_business scian_code state_code = Inr df)) \<and>
   (\<forall>df. create_loan_features approved_amount term_months num_employees
           is_new_business scian_code state_code = Inr df \<longrightarrow>
      map fst df =
        [''GrAppv'', ''NAFIN_Appv'', ''Term'', ''NoEmp'', ''IsNewBusiness'', ''NewExist'',
         ''SCIAN'', ''State'', ''NAFIN_Portion'', ''Loan_per_Employee'', ''Term_Years'',
         ''Debt_to_NAFIN'', ''Log_GrAppv'', ''HasRealEstate'', ''InRecession'', ''IsUrban''] \<and>
      set (num_feats (create_preprocessor fitted_num fitted_cats names) @
           cat_feats (create_preprocessor fitted_num fitted_cats names)) - set (map fst df) =
        {''Loan_per_Emp'', ''Log_Loan_per_Emp'', ''RealEstate_Exposure'', ''Bank_Exposure'',
         ''Bank_Exposure_Ratio'', ''Loan_Age'', ''Bank_Frequency'', ''Bank_Frequency_Log'',
         ''Region''})"
proof -
  have built: "num_employees \<noteq> - 1 \<longrightarrow>
      (\<exists>df. create_loan_features approved_amount term_months num_employees
               is_new_business scian_code state_code = Inr df)"
    by (simp add: create_loan_features_def Let_def)
  have keys: "map fst df =
        [''GrAppv'', ''NAFIN_Appv'', ''Term'', ''NoEmp'', ''IsNewBusiness'', ''NewExist'',
         ''SCIAN'', ''State'', ''NAFIN_Portion'', ''Loan_per_Employee'', ''Term_Years'',
         ''Debt_to_NAFIN'', ''Log_GrAppv'', ''HasRealEstate'', ''InRecession'', ''IsUrban'']"
    if "create_loan_features approved_amount term_months num_employees
           is_new_business scian_code state_code = Inr df" for df
    using that by (auto simp: create_loan_features_def Let_def split: if_splits)
  have missing: "set (num_feats (create_preprocessor fitted_num fitted_cats names) @
           cat_feats (create_preprocessor fitted_num fitted_cats names)) -
         set [''GrAppv'', ''NAFIN_Appv'', ''Term'', ''NoEmp'', ''IsNewBusiness'', ''NewExist'',
         ''SCIAN'', ''State'', ''NAFIN_Portion'', ''Loan_per_Employee'', ''Term_Years'',
         ''Debt_to_NAFIN'', ''Log_GrAppv'', ''HasRealEstate'', ''InRecession'', ''IsUrban''] =
        {''Loan_per_Emp'', ''Log_Loan_per_Emp'', ''RealEstate_Exposure'', ''Bank_Exposure'',
         ''Bank_Exposure_Ratio'', ''Loan_Age'', ''Bank_Frequency'', ''Bank_Frequency_Log'',
         ''Region''}"
    by (simp add: create_preprocessor_def insert_Diff_if insert_commute)
  from built keys missing show ?thesis by simp
qed

theorem loan_features_keys_witness:
  "\<exists>df. create_loan_features 500000 36 12 False ''46'' ''JAL'' = Inr df \<and>
      (map fst df =
        [''GrAppv'', ''NAFIN_Appv'', ''Term'', ''NoEmp'', ''IsNewBusiness'', ''NewExist'',
         ''SCIAN'', ''State'', ''NAFIN_Portion'', ''Loan_per_Employee'', ''Term_Years'',
         ''Debt_to_NAFIN'', ''Log_GrAppv'', ''HasRealEstate'', ''InRecession'', ''IsUrban''] \<and>
      set (num_feats example_fitted_preprocessor @ cat_feats example_fitted_preprocessor)
        - set (map fst df) =
        {''Loan_per_Emp'', ''Log_Loan_per_Emp'', ''RealEstate_Exposure'', ''Bank_Exposure'',
         ''Bank_Exposure_Ratio'', ''Loan_Age'', ''Bank_Frequency'', ''Bank_Frequency_Log'',
         ''Region''})"
proof -
  note k = loan_features_keys [where num_employees = 12 and approved_amount = 500000
      and term_months = 36 and is_new_business = False and scian_code = "''46''"
      and state_code = "''JAL''" and fitted_num = "\<lambda>cells. Some (map cell_num cells)"
      and fitted_cats = "[[Str ''11'', Str ''46''], [Str ''CDMX'', Str ''JAL''],
        [Str ''Center'', Str ''Other''], [Num 0, Num 1], [Num 0, Num 1]]"
      and names = None, folded example_fitted_preprocessor_def]
  have ne: "(12::int) \<noteq> - 1" by simp
  from conjunct1 [OF k, rule_format, OF ne] obtain df where
    e: "create_loan_features 500000 36 12 False ''46'' ''JAL'' = Inr df" ..
  note k2 = conjunct2 [OF k, rule_format, OF e]
  show ?thesis
    by (rule exI [where x = df]) (rule conjI [OF e k2])
qed

text \<open>
  C1. The claim is that the returned quote carries a risk category fixed by thresholds
  on the probability of default. The dictionary that \<open>calculate_quote\<close> returns has
  no such entry: evaluated on a request whose probability of default is 0.005, it
  returns twelve entries, and reading \<open>gps_category\<close> from them, as app.py does,
  raises \<open>KeyError\<close>.
\<close>

theorem quote_lacks_category:
  "snd (calculate_quote failing_train (example_files (5 / 1000) 1000)
          500000 36 12 False ''46'' ''JAL'' 0 False False) =
     Inr [(''approved_amount'', Num 500000), (''nafin_guaranteed'', Num 400000),
          (''pd'', Num (5 / 1000)), (''lgd'', Num 1000),
          (''expected_loss'', Num 5), (''guarantee_fee'', Num 2000),
          (''total_financed'', Num 502000), (''monthly_payment'', Num (125500 / 9)),
          (''term_months'', Num 36), (''bank_rate'', Num 0),
          (''scian_code'', Str ''46''), (''state'', Str ''JAL'')] \<and>
   getitem
     [(''approved_amount'', Num 500000), (''nafin_guaranteed'', Num 400000),
      (''pd'', Num (5 / 1000)), (''lgd'', Num 1000),
      (''expected_loss'', Num 5), (''guarantee_fee'', Num 2000),
      (''total_financed'', Num 502000), (''monthly_payment'', Num (125500 / 9)),
      (''term_months'', Num 36), (''bank_rate'', Num 0),
      (''scian_code'', Str ''46''), (''state'', Str ''JAL'')]
     ''gps_category'' = Inl KeyError"
proof (rule conjI)
  show "snd (calculate_quote failing_train (example_files (5 / 1000) 1000)
          500000 36 12 False ''46'' ''JAL'' 0 False False) =
     Inr [(''approved_amount'', Num 500000), (''nafin_guaranteed'', Num 400000),
          (''pd'', Num (5 / 1000)), (''lgd'', Num 1000),
          (''expected_loss'', Num 5), (''guarantee_fee'', Num 2000),
          (''total_financed'', Num 502000), (''monthly_payment'', Num (125500 / 9)),
          (''term_months'', Num 36), (''bank_rate'', Num 0),
          (''scian_code'', Str ''46''), (''state'', Str ''JAL'')]"
    by (simp add: quote_defs example_defs)
  show "getitem
     [(''approved_amount'', Num 500000), (''nafin_guaranteed'', Num 400000),
      (''pd'', Num (5 / 1000)), (''lgd'', Num 1000),
      (''expected_loss'', Num 5), (''guarantee_fee'', Num 2000),
      (''total_financed'', Num 502000), (''monthly_payment'', Num (125500 / 9)),
      (''term_months'', Num 36), (''bank_rate'', Num 0),
      (''scian_code'', Str ''46''), (''state'', Str ''JAL'')]
     ''gps_category'' = Inl KeyError"
    by (simp add: getitem_def)
qed

text \<open>
  C3, as amended. For every fitted preprocessor and every feature record that lacks a
  column the preprocessor requires, \<open>transform_data\<close> fails, and it fails with the
  \<open>ValueError\<close> that scikit-learn raises for missing columns; no value is put in
  place of the absent column. The source defines no \<open>SchemaError\<close>.
\<close>

theorem transform_data_missing_column:
  assumes "c \<in> set (num_feats p @ cat_feats p)"
    and "c \<notin> fst ` set X"
  shows "transform_data p X = Inl ValueError"
proof -
  from assms have "select_columns X (num_feats p @ cat_feats p) = None"
    by (rule select_columns_missing)
  then have "transform p X = Inl ValueError"
    by (simp add: transform_def)
  then show ?thesis
    by (simp add: transform_data_def)
qed

theorem transform_data_missing_column_witness:
  "transform_data example_fitted_preprocessor
     [(''GrAppv'', Num 500000), (''Term'', Num 36)] = Inl ValueError"
proof -
  have a: "''Region'' \<in> set (num_feats example_fitted_preprocessor @
                               cat_feats example_fitted_preprocessor)"
    by (simp add: example_fitted_preprocessor_def create_preprocessor_def)
  have b: "''Region'' \<notin> fst ` set [(''GrAppv'', Num 500000), (''Term'', Num 36)]"
    by simp
  from a b show ?thesis
    by (rule transform_data_missing_column)
qed

text \<open>
  The claim as stated asks for a \<open>SchemaError\<close>. A record without the \<open>State\<close>
  column, given to a preprocessor that requires it, yields \<open>ValueError\<close> instead.
\<close>

theorem missing_column_not_schema_error:
  "''State'' \<notin> fst ` set [(''GrAppv'', Num 500000), (''Term'', Num 36)] \<and>
   transform_data example_preprocessor [(''GrAppv'', Num 500000), (''Term'', Num 36)]
     = Inl ValueError \<and>
   transform_data example_preprocessor [(''GrAppv'', Num 500000), (''Term'', Num 36)]
     \<noteq> Inl SchemaError"
  by (simp add: transform_data_def transform_def select_columns_def example_preprocessor_def)

text \<open>
  C9, as amended. For every categorical encoding fitted from \<open>create_preprocessor\<close>
  and every list of fitted categories: a category string not seen while fitting maps
  to the unknown code \<open>-1\<close>; every fitted category other than the missing value maps
  to a non-negative code, so neither reserved code collides with it; a missing value
  maps to the missing code \<open>-2\<close> when a missing value was among the fitted
  categories, and otherwise it is an unseen category and maps to \<open>-1\<close>; the two
  reserved codes differ. The encoding is a total function: it never raises.
\<close>

theorem ordinal_encoding_reserved_codes:
  "(Str s \<notin> set cs \<longrightarrow>
      encode (cat_tf (create_preprocessor fitted_num fitted_cats names)) cs (Str s) = - 1) \<and>
   (\<forall>v\<in>set cs. v \<noteq> Missing \<longrightarrow>
      0 \<le> encode (cat_tf (create_preprocessor fitted_num fitted_cats names)) cs v) \<and>
   (Missing \<in> set cs \<longrightarrow>
      encode (cat_tf (create_preprocessor fitted_num fitted_cats names)) cs Missing = - 2) \<and>
   (Missing \<notin> set cs \<longrightarrow>
      encode (cat_tf (create_preprocessor fitted_num fitted_cats names)) cs Missing = - 1) \<and>
   unknown_value (cat_tf (create_preprocessor fitted_num fitted_cats names)) \<noteq>
   encoded_missing_value (cat_tf (create_preprocessor fitted_num fitted_cats names))"
proof -
  let ?enc = "cat_tf (create_preprocessor fitted_num fitted_cats names)"
  have u: "unknown_value ?enc = - 1" and m: "encoded_missing_value ?enc = - 2"
    by (simp_all add: create_preprocessor_def)
  have unseen: "encode ?enc cs v = - 1" if "v \<notin> set cs" for v
  proof -
    from that have "index_of v cs = None" by (simp add: index_of_None)
    with u show ?thesis by (simp add: encode_def)
  qed
  have seen: "0 \<le> encode ?enc cs v" if "v \<in> set cs" "v \<noteq> Missing" for v
  proof -
    from that(1) obtain i where "index_of v cs = Some i"
      using index_of_None [of v cs] by (cases "index_of v cs") auto
    with that(2) show ?thesis by (simp add: encode_def)
  qed
  have miss: "encode ?enc cs Missing = - 2" if "Missing \<in> set cs"
  proof -
    from that obtain i where "index_of Missing cs = Some i"
      using index_of_None [of Missing cs] by (cases "index_of Missing cs") auto
    with m show ?thesis by (simp add: encode_def)
  qed
  from u m have "unknown_value ?enc \<noteq> encoded_missing_value ?enc" by simp
  with unseen seen miss show ?thesis by blast
qed

theorem ordinal_encoding_reserved_codes_witness:
  "encode (cat_tf example_fitted_preprocessor) [Str ''CDMX'', Str ''JAL''] (Str ''XX'') = - 1 \<and>
   0 \<le> encode (cat_tf example_fitted_preprocessor) [Str ''CDMX'', Str ''JAL''] (Str ''JAL'') \<and>
   encode (cat_tf example_fitted_preprocessor) [Str ''CDMX'', Missing] Missing = - 2"
proof -
  note k = ordinal_encoding_reserved_codes [where cs = "[Str ''CDMX'', Str ''JAL'']"
      and s = "''XX''" and fitted_num = "\<lambda>cells. Some (map cell_num cells)"
      and fitted_cats = "[[Str ''11'', Str ''46''], [Str ''CDMX'', Str ''JAL''],
        [Str ''Center'', Str ''Other''], [Num 0, Num 1], [Num 0, Num 1]]"
      and names = None, folded example_fitted_preprocessor_def]
  note k' = ordinal_encoding_reserved_codes [where cs = "[Str ''CDMX'', Missing]"
      and s = "''XX''" and fitted_num = "\<lambda>cells. Some (map cell_num cells)"
      and fitted_cats = "[[Str ''11'', Str ''46''], [Str ''CDMX'', Str ''JAL''],
        [Str ''Center'', Str ''Other''], [Num 0, Num 1], [Num 0, Num 1]]"
      and names = None, folded example_fitted_preprocessor_def]
  have a: "Str ''XX'' \<notin> set [Str ''CDMX'', Str ''JAL'']" by simp
  have b: "Str ''JAL'' \<in> set [Str ''CDMX'', Str ''JAL'']" by simp
  have c: "Str ''JAL'' \<noteq> Missing" by simp
  have d: "Missing \<in> set [Str ''CDMX'', Missing]" by simp
  from k a have 1: "encode (cat_tf example_fitted_preprocessor) [Str ''CDMX'', Str ''JAL''] (Str ''XX'') = - 1"
    by blast
  from k b c have 2: "0 \<le> encode (cat_tf example_fitted_preprocessor) [Str ''CDMX'', Str ''JAL''] (Str ''JAL'')"
    by blast
  from k' d have 3: "encode (cat_tf example_fitted_preprocessor) [Str ''CDMX'', Missing] Missing = - 2"
    by blast
  from 1 2 3 show ?thesis by simp
qed

text \<open>
  The claim as stated sends every missing value to \<open>-2\<close>. For an encoding fitted on
  data without missing values, as the training data of this repository is after its
  cleaning step, a missing state maps to \<open>-1\<close>.
\<close>

theorem unseen_missing_gets_unknown_code:
  "encode (cat_tf example_fitted_preprocessor)
     (categories (cat_tf example_fitted_preprocessor) ! 1) Missing = - 1 \<and>
   encode (cat_tf example_fitted_preprocessor)
     (categories (cat_tf example_fitted_preprocessor) ! 1) Missing \<noteq> - 2"
  by (simp add: example_fitted_preprocessor_def create_preprocessor_def encode_def)




text \<open>
  C8, as amended. The engine validates no range. Once the bundle is loaded and the
  feature record is built and preprocessed, both scorers are called on the same
  preprocessed row, and every quote that is returned stores their values unchanged as
  \<open>pd\<close> and \<open>lgd\<close>, with the expected loss their product with the calibration
  factor, whatever these values are. At an annual rate of 0 and a positive term such a
  quote is returned. No call raises \<open>ModelOutputError\<close>.
\<close>

theorem scorer_outputs_unvalidated:
  assumes "load_models train fs = (fs', Inr arts)"
    and "quote_loan_df approved_amount term_months num_employees is_new_business
           scian_code state_code has_real_estate in_recession = Inr df"
    and "transform_data (preprocessor arts) df = Inr X"
    and "0 < term_months"
  shows "(\<exists>q. snd (calculate_quote train fs approved_amount term_months num_employees
                     is_new_business scian_code state_code 0 has_real_estate
                     in_recession) = Inr q \<and>
              map_of q ''pd'' = Some (Num (pd_model arts X)) \<and>
              map_of q ''lgd'' = Some (Num (lgd_model arts X)) \<and>
              map_of q ''expected_loss'' =
                Some (Num (pd_model arts X * lgd_model arts X * calibration_factor arts))) \<and>
         (\<forall>q. snd (calculate_quote train fs approved_amount term_months num_employees
                     is_new_business scian_code state_code bank_rate has_real_estate
                     in_recession) = Inr q \<longrightarrow>
              map_of q ''pd'' = Some (Num (pd_model arts X)) \<and>
              map_of q ''lgd'' = Some (Num (lgd_model arts X)) \<and>
              map_of q ''expected_loss'' =
                Some (Num (pd_model arts X * lgd_model arts X * calibration_factor arts))) \<and>
         snd (calculate_quote train fs a t n b s st r h i) \<noteq> Inl ModelOutputError"
proof (intro conjI allI impI)
  from assms(4) have "term_months \<noteq> 0" by simp
  then have pay: "calculate_monthly_payment
            (approved_amount +
               min (max (pd_model arts X * lgd_model arts X * calibration_factor arts * 1.20)
                        (calculate_nafin_guarantee approved_amount * 0.005))
                   (calculate_nafin_guarantee approved_amount * 0.05))
            0 term_months =
          Inr ((approved_amount +
               min (max (pd_model arts X * lgd_model arts X * calibration_factor arts * 1.20)
                        (calculate_nafin_guarantee approved_amount * 0.005))
                   (calculate_nafin_guarantee approved_amount * 0.05)) / of_int term_months)"
    by (rule monthly_payment_rate_zero)
  note q = quote_with_ok [OF assms(2,3) pay]
  from assms(1) have c: "snd (calculate_quote train fs approved_amount term_months num_employees
                     is_new_business scian_code state_code 0 has_real_estate
                     in_recession) =
      quote_with arts approved_amount term_months num_employees is_new_business scian_code
             state_code 0 has_real_estate in_recession"
    by (simp add: calculate_quote_def)
  show "\<exists>q. snd (calculate_quote train fs approved_amount term_months num_employees
                     is_new_business scian_code state_code 0 has_real_estate
                     in_recession) = Inr q \<and>
              map_of q ''pd'' = Some (Num (pd_model arts X)) \<and>
              map_of q ''lgd'' = Some (Num (lgd_model arts X)) \<and>
              map_of q ''expected_loss'' =
                Some (Num (pd_model arts X * lgd_model arts X * calibration_factor arts))"
    unfolding c q by simp
next
  fix q
  assume "snd (calculate_quote train fs approved_amount term_months num_employees
                     is_new_business scian_code state_code bank_rate has_real_estate
                     in_recession) = Inr q"
  with assms(1) have qw: "quote_with arts approved_amount term_months num_employees
      is_new_business scian_code state_code bank_rate has_real_estate in_recession = Inr q"
    by (simp add: calculate_quote_def)
  from quote_with_Inr [OF qw] obtain df' X' where
    d: "quote_loan_df approved_amount term_months num_employees is_new_business
           scian_code state_code has_real_estate in_recession = Inr df'"
       "transform_data (preprocessor arts) df' = Inr X'"
    and m: "map_of q ''pd'' = Some (Num (pd_model arts X'))"
       "map_of q ''lgd'' = Some (Num (lgd_model arts X'))"
       "map_of q ''expected_loss'' =
          Some (Num (pd_model arts X' * lgd_model arts X' * calibration_factor arts))"
    by auto
  from d assms(2,3) have "X' = X" by simp
  with m show "map_of q ''pd'' = Some (Num (pd_model arts X))"
    and "map_of q ''lgd'' = Some (Num (lgd_model arts X))"
    and "map_of q ''expected_loss'' =
          Some (Num (pd_model arts X * lgd_model arts X * calibration_factor arts))"
    by simp_all
next
  show "snd (calculate_quote train fs a t n b s st r h i) \<noteq> Inl ModelOutputError"
    using calculate_quote_errors [of train fs a t n b s st r h i ModelOutputError]
    by auto
qed

theorem scorer_outputs_unvalidated_witness:
  "\<exists>q. snd (calculate_quote failing_train (example_files 2 (- 1000))
             500000 36 12 False ''46'' ''JAL'' 0 False False) = Inr q \<and>
       map_of q ''pd'' = Some (Num 2) \<and>
       map_of q ''lgd'' = Some (Num (- 1000)) \<and>
       map_of q ''expected_loss'' = Some (Num (- 2000))"
proof -
  have l: "load_models failing_train (example_files 2 (- 1000))
             = (example_files 2 (- 1000), Inr (example_artifacts 2 (- 1000)))"
    by (rule load_example_files)
  have n: "(12::int) \<noteq> - 1" and t: "(0::int) < 36"
    by simp_all
  from n obtain df where
    df: "quote_loan_df 500000 36 12 False ''46'' ''JAL'' False False = Inr df"
    using quote_loan_df_built by blast
  from df have tr: "transform_data (preprocessor (example_artifacts 2 (- 1000))) df =
      Inr [(''num__GrAppv'', 500000), (''num__Term'', 36), (''cat__State'', 1)]"
    by (auto simp: quote_defs example_defs upper_def upper_char_def)
  from scorer_outputs_unvalidated [OF l df tr t, THEN conjunct1]
  show ?thesis
    by (simp add: example_artifacts_def)
qed

text \<open>
  The claim as stated asks for a \<open>ModelOutputError\<close> when the probability of
  default is outside \<open>[0,1]\<close> or the loss is negative. With a probability of 2 and
  a loss of \<open>-1000\<close> a quote is returned.
\<close>

theorem out_of_range_scores_accepted:
  "snd (calculate_quote failing_train (example_files 2 (- 1000))
          500000 36 12 False ''46'' ''JAL'' 0 False False) =
     Inr [(''approved_amount'', Num 500000), (''nafin_guaranteed'', Num 400000),
          (''pd'', Num 2), (''lgd'', Num (- 1000)),
          (''expected_loss'', Num (- 2000)), (''guarantee_fee'', Num 2000),
          (''total_financed'', Num 502000), (''monthly_payment'', Num (125500 / 9)),
          (''term_months'', Num 36), (''bank_rate'', Num 0),
          (''scian_code'', Str ''46''), (''state'', Str ''JAL'')]"
  by (simp add: quote_defs example_defs)

end
